theory Spec2Isabelle
  imports Complex_Main "HOL-Library.Log_Nat"
begin

section \<open>JavaScript numbers\<close>

text \<open>
  Every amount the report handlers of \<^verbatim>\<open>server/routes.ts\<close> compute is a JavaScript
  Number, an IEEE 754 binary64 value. A finite Number is represented by the rational it
  denotes, and every arithmetic operation rounds its exact result to the nearest binary64
  value, ties to even. The exponent range is not bounded in the model: it is exact for
  every result whose magnitude lies between \<open>2\<^sup>-\<^sup>1\<^sup>0\<^sup>2\<^sup>2\<close> and \<open>2\<^sup>1\<^sup>0\<^sup>2\<^sup>4\<close>, which
  covers all sums, products and quotients of \<^verbatim>\<open>decimal(12,2)\<close> columns. \<^verbatim>\<open>NaN\<close>,
  the infinities and the sign of zero are not represented.
\<close>

definition pow2 :: "int \<Rightarrow> rat" where
  "pow2 e = (if 0 \<le> e then 2 ^ nat e else 1 / 2 ^ nat (- e))"

definition ilog2 :: "rat \<Rightarrow> int" where
  \<comment> \<open>the exponent \<open>e\<close> with \<open>2\<^sup>e \<le> a < 2\<^sup>e\<^sup>+\<^sup>1\<close>, for \<open>a > 0\<close>\<close>
  "ilog2 a = (let (p, q) = quotient_of a; e0 = bitlen p - bitlen q
              in if pow2 e0 \<le> a then e0 else e0 - 1)"

definition roundTiesToEven :: "rat \<Rightarrow> int" where
  "roundTiesToEven y =
     (let n = \<lfloor>y\<rfloor>; r = y - of_int n
      in if r < 1 / 2 then n else if 1 / 2 < r then n + 1 else if even n then n else n + 1)"

definition roundDouble :: "rat \<Rightarrow> rat" where
  \<comment> \<open>the binary64 value nearest to \<open>x\<close>: a 53-bit significand times a power of two\<close>
  "roundDouble x =
     (if x = 0 then 0
      else let a = \<bar>x\<bar>; u = pow2 (ilog2 a - 52)
           in sgn x * of_int (roundTiesToEven (a / u)) * u)"

definition jsAdd :: "rat \<Rightarrow> rat \<Rightarrow> rat" where
  "jsAdd a b = roundDouble (a + b)"

definition jsSub :: "rat \<Rightarrow> rat \<Rightarrow> rat" where
  "jsSub a b = roundDouble (a - b)"

definition jsMul :: "rat \<Rightarrow> rat \<Rightarrow> rat" where
  "jsMul a b = roundDouble (a * b)"

definition jsDiv :: "rat \<Rightarrow> rat \<Rightarrow> rat" where
  \<comment> \<open>the only division is by the month count of an insurance record that passed the
      window filter; a zero divisor, an infinity or \<^verbatim>\<open>NaN\<close> in JavaScript, is outside the model\<close>
  "jsDiv a b = roundDouble (a / b)"

text \<open>
  A \<^verbatim>\<open>decimal(12,2)\<close> column reaches the handlers as a decimal string. The string is
  represented by the rational it spells; \<^verbatim>\<open>parseFloat\<close> yields the Number nearest to it.
\<close>

type_synonym decimal = rat

definition parseFloat :: "decimal \<Rightarrow> rat" where
  "parseFloat s = roundDouble s"

definition reduceSum :: "('a \<Rightarrow> rat) \<Rightarrow> 'a list \<Rightarrow> rat" where
  \<comment> \<open>\<^verbatim>\<open>xs.reduce((sum, x) => sum + g(x), 0)\<close>\<close>
  "reduceSum g xs = foldl (\<lambda>acc x. jsAdd acc (g x)) 0 xs"


section \<open>Calendar dates and the Date object\<close>

text \<open>
  A \<^verbatim>\<open>date\<close> column and a \<^verbatim>\<open>from\<close>/\<^verbatim>\<open>to\<close> query parameter are strings of the form
  \<^verbatim>\<open>YYYY-MM-DD\<close>, represented by their three numbers; comparing two such strings is
  comparing the numbers lexicographically. A billing period \<^verbatim>\<open>YYYY-MM\<close> is the pair of
  its two numbers, and \<^verbatim>\<open>substring(0, 7)\<close> of a date string is its year and month.
\<close>

record isodate =
  year :: int
  month :: int
  day :: int

type_synonym monthKey = "int \<times> int"

definition substring7 :: "isodate \<Rightarrow> monthKey" where
  "substring7 d = (year d, month d)"

definition date_le :: "isodate \<Rightarrow> isodate \<Rightarrow> bool" where
  "date_le a b =
     (year a < year b \<or> (year a = year b \<and>
        (month a < month b \<or> (month a = month b \<and> day a \<le> day b))))"

fun monthKey_le :: "monthKey \<Rightarrow> monthKey \<Rightarrow> bool" where
  "monthKey_le (y1, m1) (y2, m2) = (y1 < y2 \<or> (y1 = y2 \<and> m1 \<le> m2))"

definition date_lt :: "isodate \<Rightarrow> isodate \<Rightarrow> bool" where
  "date_lt a b =
     (year a < year b \<or> (year a = year b \<and>
        (month a < month b \<or> (month a = month b \<and> day a < day b))))"

definition isLeap :: "int \<Rightarrow> bool" where
  "isLeap y = (y mod 4 = 0 \<and> (if y mod 100 = 0 then y mod 400 = 0 else True))"

definition daysInMonth :: "int \<Rightarrow> int \<Rightarrow> int" where
  "daysInMonth y m =
     (if m = 2 then (if isLeap y then 29 else 28)
      else if m = 4 \<or> m = 6 \<or> m = 9 \<or> m = 11 then 30 else 31)"

definition validDate :: "isodate \<Rightarrow> bool" where
  \<comment> \<open>the dates a \<^verbatim>\<open>date\<close> column can hold\<close>
  "validDate d = (1 \<le> month d \<and> month d \<le> 12 \<and> 1 \<le> day d \<and>
                  day d \<le> daysInMonth (year d) (month d))"

text \<open>
  A Date object is an instant. It is represented by the calendar date and the minute of
  the day that the instant has in UTC, so that comparing two Date objects
  (\<^verbatim>\<open>date >= start\<close>) is comparing these fields lexicographically. The host's local
  time zone is a fixed offset \<open>tz\<close> in minutes east of UTC, with \<open>-1440 < tz < 1440\<close>
  (a zone without daylight-saving changes, such as UTC or Singapore's);
  the local getters \<^verbatim>\<open>getFullYear\<close> and \<^verbatim>\<open>getMonth\<close> read the fields of the instant
  moved by \<open>tz\<close>, and \<^verbatim>\<open>new Date(y, m, d)\<close> is local midnight moved back by \<open>tz\<close>.
\<close>

record jsDate =
  utcDate :: isodate
  utcMinute :: int

record host =
  tz :: int
  now :: jsDate

definition prevDay :: "isodate \<Rightarrow> isodate" where
  "prevDay d =
     (if 1 < day d then d\<lparr>day := day d - 1\<rparr>
      else if 1 < month d
        then \<lparr>year = year d, month = month d - 1, day = daysInMonth (year d) (month d - 1)\<rparr>
        else \<lparr>year = year d - 1, month = 12, day = 31\<rparr>)"

definition nextDay :: "isodate \<Rightarrow> isodate" where
  "nextDay d =
     (if day d < daysInMonth (year d) (month d) then d\<lparr>day := day d + 1\<rparr>
      else if month d < 12 then \<lparr>year = year d, month = month d + 1, day = 1\<rparr>
        else \<lparr>year = year d + 1, month = 1, day = 1\<rparr>)"

definition shiftMinutes :: "int \<Rightarrow> jsDate \<Rightarrow> jsDate" where
  "shiftMinutes k t =
     (let m = utcMinute t + k
      in if m < 0 then \<lparr>utcDate = prevDay (utcDate t), utcMinute = m + 1440\<rparr>
         else if 1440 \<le> m then \<lparr>utcDate = nextDay (utcDate t), utcMinute = m - 1440\<rparr>
         else \<lparr>utcDate = utcDate t, utcMinute = m\<rparr>)"

definition parseDate :: "isodate \<Rightarrow> jsDate" where
  \<comment> \<open>\<^verbatim>\<open>new Date("YYYY-MM-DD")\<close>: a date-only string is midnight UTC\<close>
  "parseDate d = \<lparr>utcDate = d, utcMinute = 0\<rparr>"

definition newDate :: "host \<Rightarrow> int \<Rightarrow> int \<Rightarrow> int \<Rightarrow> jsDate" where
  \<comment> \<open>\<^verbatim>\<open>new Date(y, m, d)\<close>: local midnight; a month index outside 0..11 carries into the year\<close>
  "newDate h y m d =
     shiftMinutes (- tz h) \<lparr>utcDate = \<lparr>year = y + m div 12, month = m mod 12 + 1, day = d\<rparr>,
                            utcMinute = 0\<rparr>"

definition getFullYear :: "host \<Rightarrow> jsDate \<Rightarrow> int" where
  "getFullYear h t = year (utcDate (shiftMinutes (tz h) t))"

definition getMonth :: "host \<Rightarrow> jsDate \<Rightarrow> int" where
  "getMonth h t = month (utcDate (shiftMinutes (tz h) t)) - 1"

definition toISODate :: "jsDate \<Rightarrow> isodate" where
  \<comment> \<open>\<^verbatim>\<open>toISOString().split("T")[0]\<close>: the UTC date\<close>
  "toISODate t = utcDate t"

definition jsDate_le :: "jsDate \<Rightarrow> jsDate \<Rightarrow> bool" where
  \<comment> \<open>\<^verbatim>\<open>a <= b\<close> on Date objects compares the instants\<close>
  "jsDate_le a b =
     (date_lt (utcDate a) (utcDate b) \<or>
      (utcDate a = utcDate b \<and> utcMinute a \<le> utcMinute b))"

definition monthKeyOf :: "host \<Rightarrow> jsDate \<Rightarrow> monthKey" where
  \<comment> \<open>the template \<^verbatim>\<open>`${d.getFullYear()}-${String(d.getMonth() + 1).padStart(2, "0")}`\<close>\<close>
  "monthKeyOf h t = (getFullYear h t, getMonth h t + 1)"

definition monthsBetween :: "host \<Rightarrow> jsDate \<Rightarrow> jsDate \<Rightarrow> int" where
  \<comment> \<open>the month count written out in the P&L handler and in the insurance reducer\<close>
  "monthsBetween h start end =
     (getFullYear h end - getFullYear h start) * 12 + (getMonth h end - getMonth h start) + 1"


section \<open>The tables of \<^verbatim>\<open>shared/schema.ts\<close>\<close>

text \<open>
  One record per table, with the columns the report handlers read and the keys that
  relate the tables. Text columns that hold a status or a kind stay strings, as the
  handlers compare them with string literals. A nullable column is an option.
\<close>

record customer =
  c_id :: int
  c_name :: string
  c_status :: string

record route =
  r_id :: int
  r_customerId :: "int option"
  r_monthlyRate :: decimal
  r_routeType :: string
  r_subcontractorCost :: "decimal option"
  r_vehicleId :: "int option"
  r_status :: string

record incomeRecord =
  i_id :: int
  i_customerId :: "int option"
  i_routeId :: "int option"
  i_amount :: decimal
  i_billingPeriod :: monthKey
  i_incomeType :: string
  i_paymentStatus :: string

record expenseCategory =
  k_id :: int
  k_name :: string
  k_parentId :: "int option"

record expense =
  x_id :: int
  x_categoryId :: "int option"
  x_vehicleId :: "int option"
  x_amount :: decimal
  x_expenseDate :: isodate
  x_isRecurring :: bool
  x_recurringFrequency :: "string option"

record vehicle =
  v_id :: int
  v_registrationNumber :: string
  v_status :: string

record vehicleInstallment =
  vi_id :: int
  vi_vehicleId :: int
  vi_monthlyAmount :: decimal
  vi_startDate :: isodate
  vi_endDate :: isodate

record vehicleInsurance =
  vs_id :: int
  vs_vehicleId :: int
  vs_premium :: decimal
  vs_startDate :: isodate
  vs_endDate :: isodate

record vehicleParking =
  vp_id :: int
  vp_vehicleId :: int
  vp_monthlyCost :: decimal
  vp_startDate :: isodate
  vp_endDate :: "isodate option"

record employee =
  e_id :: int
  e_workerType :: string
  e_salary :: decimal
  e_foreignWorkerLevy :: "decimal option"
  e_status :: string


section \<open>The reads of \<^verbatim>\<open>server/storage.ts\<close>\<close>

text \<open>
  The database is the list of rows of each table, in the order in which a read returns
  them; a table has one order here, and the order matters to the handlers only through
  the rounding of their sums. The reads that the three report handlers use are the
  projections of this record and the two period filters.
\<close>

record database =
  customers :: "customer list"
  routes :: "route list"
  incomeRecords :: "incomeRecord list"
  expenseCategories :: "expenseCategory list"
  expenses :: "expense list"
  vehicles :: "vehicle list"
  vehicleInstallments :: "vehicleInstallment list"
  vehicleInsuranceRows :: "vehicleInsurance list"
  vehicleParkingRows :: "vehicleParking list"
  employees :: "employee list"

definition getIncomeByPeriod :: "database \<Rightarrow> isodate \<Rightarrow> isodate \<Rightarrow> incomeRecord list" where
  "getIncomeByPeriod db from to =
     filter (\<lambda>i. monthKey_le (substring7 from) (i_billingPeriod i) \<and>
                 monthKey_le (i_billingPeriod i) (substring7 to)) (incomeRecords db)"

definition getExpensesByPeriod :: "database \<Rightarrow> isodate \<Rightarrow> isodate \<Rightarrow> expense list" where
  "getExpensesByPeriod db from to =
     filter (\<lambda>e. date_le from (x_expenseDate e) \<and> date_le (x_expenseDate e) to) (expenses db)"


section \<open>Payroll cost\<close>

text \<open>
  The reducer over the active employees is written three times in
  \<^verbatim>\<open>server/routes.ts\<close>: the dashboard and the cash-flow handler add
  \<^verbatim>\<open>sum + salary + (local ? cpf : levy)\<close>, the P&L handler adds
  \<^verbatim>\<open>sum + (salary + (local ? cpf : levy)) * monthsInPeriod\<close>. The accumulator
  \<^verbatim>\<open>sum\<close> of the reducers is \<open>acc\<close> here.
\<close>

definition levyOf :: "employee \<Rightarrow> rat" where
  \<comment> \<open>\<^verbatim>\<open>e.foreignWorkerLevy ? parseFloat(e.foreignWorkerLevy) : 0\<close>\<close>
  "levyOf e = (case e_foreignWorkerLevy e of None \<Rightarrow> 0 | Some l \<Rightarrow> parseFloat l)"

definition cpfOf :: "employee \<Rightarrow> rat" where
  \<comment> \<open>\<^verbatim>\<open>e.workerType === "local" ? salary * 0.17 : 0\<close>\<close>
  "cpfOf e = (if e_workerType e = ''local''
              then jsMul (parseFloat (e_salary e)) (roundDouble (17 / 100)) else 0)"

definition employeeCostStep :: "rat \<Rightarrow> employee \<Rightarrow> rat" where
  "employeeCostStep acc e =
     jsAdd (jsAdd acc (parseFloat (e_salary e)))
           (if e_workerType e = ''local'' then cpfOf e else levyOf e)"

definition monthlyEmployeeCosts :: "employee list \<Rightarrow> rat" where
  "monthlyEmployeeCosts es =
     foldl employeeCostStep 0 (filter (\<lambda>e. e_status e = ''active'') es)"

definition pnlEmployeeCostStep :: "int \<Rightarrow> rat \<Rightarrow> employee \<Rightarrow> rat" where
  "pnlEmployeeCostStep monthsInPeriod acc e =
     jsAdd acc
       (jsMul (jsAdd (parseFloat (e_salary e))
                     (if e_workerType e = ''local'' then cpfOf e else levyOf e))
              (of_int monthsInPeriod))"

definition pnlEmployeeCosts :: "int \<Rightarrow> employee list \<Rightarrow> rat" where
  "pnlEmployeeCosts monthsInPeriod es =
     foldl (pnlEmployeeCostStep monthsInPeriod) 0 (filter (\<lambda>e. e_status e = ''active'') es)"

text \<open>
  A handler answers with the JSON body, or with status 500 when a read of the store
  throws. The store that cannot be read is \<open>None\<close>.
\<close>

datatype 'a response = Json 'a | Status500 string


section \<open>Dashboard statistics: \<^verbatim>\<open>GET /api/dashboard/stats\<close>\<close>

record trendPoint =
  tp_month :: int
  tp_income :: rat
  tp_expenses :: rat

record dashboardStats =
  totalIncomeMonth :: rat
  totalIncomeYTD :: rat
  totalExpensesMonth :: rat
  totalExpensesYTD :: rat
  netProfitMonth :: rat
  netProfitYTD :: rat
  activeRoutes :: nat
  recentIncome :: "incomeRecord list"
  recentExpenses :: "expense list"
  monthlyTrend :: "trendPoint list"

definition incomeAmount :: "incomeRecord \<Rightarrow> rat" where
  "incomeAmount i = parseFloat (i_amount i)"

definition expenseAmount :: "expense \<Rightarrow> rat" where
  "expenseAmount e = parseFloat (x_amount e)"

definition startsWith :: "isodate \<Rightarrow> monthKey \<Rightarrow> bool" where
  \<comment> \<open>\<^verbatim>\<open>expenseDate.startsWith("YYYY-MM")\<close>\<close>
  "startsWith d k = (substring7 d = k)"

definition monthlyIncomeOf :: "monthKey \<Rightarrow> incomeRecord list \<Rightarrow> rat" where
  "monthlyIncomeOf k income = reduceSum incomeAmount (filter (\<lambda>i. i_billingPeriod i = k) income)"

definition monthlyExpensesOf :: "monthKey \<Rightarrow> expense list \<Rightarrow> rat" where
  "monthlyExpensesOf k es = reduceSum expenseAmount (filter (\<lambda>e. startsWith (x_expenseDate e) k) es)"

definition ytdIncomeOf :: "monthKey \<Rightarrow> monthKey \<Rightarrow> incomeRecord list \<Rightarrow> rat" where
  "ytdIncomeOf yearStart currentMonth income =
     reduceSum incomeAmount
       (filter (\<lambda>i. monthKey_le yearStart (i_billingPeriod i) \<and>
                    monthKey_le (i_billingPeriod i) currentMonth) income)"

definition ytdExpensesOf :: "int \<Rightarrow> expense list \<Rightarrow> rat" where
  \<comment> \<open>\<^verbatim>\<open>e.expenseDate >= `${now.getFullYear()}-01-01`\<close>\<close>
  "ytdExpensesOf y es =
     reduceSum expenseAmount
       (filter (\<lambda>e. date_le \<lparr>year = y, month = 1, day = 1\<rparr> (x_expenseDate e)) es)"

definition trendPointOf :: "host \<Rightarrow> database \<Rightarrow> rat \<Rightarrow> int \<Rightarrow> trendPoint" where
  "trendPointOf h db employeeCosts i =
     (let date = newDate h (getFullYear h (now h)) (getMonth h (now h) - i) 1;
          k = monthKeyOf h date
      in \<lparr>tp_month = getMonth h date + 1,
          tp_income = monthlyIncomeOf k (incomeRecords db),
          tp_expenses = jsAdd (monthlyExpensesOf k (expenses db)) employeeCosts\<rparr>)"

definition dashboardBody :: "host \<Rightarrow> database \<Rightarrow> dashboardStats" where
  "dashboardBody h db =
     (let currentMonth = monthKeyOf h (now h);
          yearStart = (getFullYear h (now h), 1);
          monthlyIncome = monthlyIncomeOf currentMonth (incomeRecords db);
          monthlyExpenses = monthlyExpensesOf currentMonth (expenses db);
          ytdIncome = ytdIncomeOf yearStart currentMonth (incomeRecords db);
          ytdExpenses = ytdExpensesOf (getFullYear h (now h)) (expenses db);
          employeeCosts = monthlyEmployeeCosts (employees db)
      in \<lparr>totalIncomeMonth = monthlyIncome,
          totalIncomeYTD = ytdIncome,
          totalExpensesMonth = jsAdd monthlyExpenses employeeCosts,
          totalExpensesYTD = ytdExpenses,
          netProfitMonth = jsSub (jsSub monthlyIncome monthlyExpenses) employeeCosts,
          netProfitYTD = jsSub ytdIncome ytdExpenses,
          activeRoutes = length (filter (\<lambda>r. r_status r = ''active'') (routes db)),
          recentIncome = take 5 (incomeRecords db),
          recentExpenses = take 5 (expenses db),
          monthlyTrend = map (trendPointOf h db employeeCosts) [5, 4, 3, 2, 1, 0]\<rparr>)"

definition getDashboardStats :: "host \<Rightarrow> database option \<Rightarrow> dashboardStats response" where
  "getDashboardStats h store =
     (case store of
        None \<Rightarrow> Status500 ''Failed to fetch dashboard stats''
      | Some db \<Rightarrow> Json (dashboardBody h db))"


section \<open>Profit and loss: \<^verbatim>\<open>GET /api/reports/pnl\<close>\<close>

record namedAmount =
  n_name :: string
  n_amount :: rat

record pnlIncome =
  routeIncome :: rat
  adhocIncome :: rat
  totalIncome :: rat
  byCustomer :: "namedAmount list"

record pnlExpenses =
  byCategory :: "namedAmount list"
  subcontractorCosts :: rat
  employeeCosts :: rat
  vehicleCosts :: rat
  totalExpenses :: rat

record pnlReport =
  pl_period :: "isodate \<times> isodate"
  pl_income :: pnlIncome
  pl_expenses :: pnlExpenses
  pl_netProfit :: rat

definition pnlFrom :: "host \<Rightarrow> isodate option \<Rightarrow> isodate" where
  \<comment> \<open>\<^verbatim>\<open>req.query.from || `${new Date().getFullYear()}-01-01`\<close>; \<open>None\<close> is an absent or empty parameter\<close>
  "pnlFrom h q = (case q of Some f \<Rightarrow> f
                  | None \<Rightarrow> \<lparr>year = getFullYear h (now h), month = 1, day = 1\<rparr>)"

definition pnlTo :: "host \<Rightarrow> isodate option \<Rightarrow> isodate" where
  \<comment> \<open>\<^verbatim>\<open>req.query.to || new Date().toISOString().split("T")[0]\<close>\<close>
  "pnlTo h q = (case q of Some t \<Rightarrow> t | None \<Rightarrow> toISODate (now h))"

definition monthsInPeriod :: "host \<Rightarrow> isodate \<Rightarrow> isodate \<Rightarrow> int" where
  "monthsInPeriod h from to = monthsBetween h (parseDate from) (parseDate to)"

definition incomeOfType :: "string \<Rightarrow> incomeRecord list \<Rightarrow> rat" where
  "incomeOfType ty income = reduceSum incomeAmount (filter (\<lambda>i. i_incomeType i = ty) income)"

definition incomeByCustomer :: "customer list \<Rightarrow> incomeRecord list \<Rightarrow> namedAmount list" where
  "incomeByCustomer cs income =
     filter (\<lambda>c. 0 < n_amount c)
       (map (\<lambda>c. \<lparr>n_name = c_name c,
                  n_amount = reduceSum incomeAmount
                               (filter (\<lambda>i. i_customerId i = Some (c_id c)) income)\<rparr>) cs)"

definition falsyId :: "int option \<Rightarrow> bool" where
  \<comment> \<open>\<^verbatim>\<open>!e.categoryId\<close>: \<^verbatim>\<open>null\<close> and \<^verbatim>\<open>0\<close> are falsy\<close>
  "falsyId k = (case k of None \<Rightarrow> True | Some n \<Rightarrow> n = 0)"

definition uncategorizedExpenses :: "expense list \<Rightarrow> rat" where
  "uncategorizedExpenses es = reduceSum expenseAmount (filter (\<lambda>e. falsyId (x_categoryId e)) es)"

definition expensesByCategory :: "expenseCategory list \<Rightarrow> expense list \<Rightarrow> namedAmount list" where
  "expensesByCategory cats es =
     (let listed = filter (\<lambda>c. 0 < n_amount c)
            (map (\<lambda>cat. \<lparr>n_name = k_name cat,
                         n_amount = reduceSum expenseAmount
                                      (filter (\<lambda>e. x_categoryId e = Some (k_id cat)) es)\<rparr>) cats)
      in if 0 < uncategorizedExpenses es
         then listed @ [\<lparr>n_name = ''Uncategorized'', n_amount = uncategorizedExpenses es\<rparr>]
         else listed)"

definition activeSubcontractorCosts :: "route list \<Rightarrow> rat list" where
  \<comment> \<open>the routes that pass the filter \<^verbatim>\<open>routeType === "subcontracted" && status === "active" &&
      subcontractorCost\<close>, each with \<^verbatim>\<open>parseFloat(r.subcontractorCost!)\<close>\<close>
  "activeSubcontractorCosts rs =
     List.map_filter
       (\<lambda>r. if r_routeType r = ''subcontracted'' \<and> r_status r = ''active''
            then map_option parseFloat (r_subcontractorCost r) else None) rs"

definition pnlSubcontractorCosts :: "int \<Rightarrow> route list \<Rightarrow> rat" where
  "pnlSubcontractorCosts n rs =
     foldl (\<lambda>acc c. jsAdd acc (jsMul c (of_int n))) 0 (activeSubcontractorCosts rs)"

definition pnlBody :: "host \<Rightarrow> database \<Rightarrow> isodate option \<Rightarrow> isodate option \<Rightarrow> pnlReport" where
  "pnlBody h db fromQ toQ =
     (let from = pnlFrom h fromQ;
          to = pnlTo h toQ;
          income = getIncomeByPeriod db from to;
          expenses = getExpensesByPeriod db from to;
          n = monthsInPeriod h from to;
          routeIncome = incomeOfType ''route'' income;
          adhocIncome = incomeOfType ''adhoc'' income;
          subcontractorCosts = pnlSubcontractorCosts n (routes db);
          employeeCosts = pnlEmployeeCosts n (employees db);
          vehicleCosts = 0;
          totalExpenses = jsAdd (jsAdd (jsAdd (reduceSum expenseAmount expenses) subcontractorCosts)
                                       employeeCosts) vehicleCosts
      in \<lparr>pl_period = (from, to),
          pl_income = \<lparr>routeIncome = routeIncome,
                       adhocIncome = adhocIncome,
                       totalIncome = jsAdd routeIncome adhocIncome,
                       byCustomer = incomeByCustomer (customers db) income\<rparr>,
          pl_expenses = \<lparr>byCategory = expensesByCategory (expenseCategories db) expenses,
                         subcontractorCosts = subcontractorCosts,
                         employeeCosts = employeeCosts,
                         vehicleCosts = vehicleCosts,
                         totalExpenses = totalExpenses\<rparr>,
          pl_netProfit = jsSub (jsAdd routeIncome adhocIncome) totalExpenses\<rparr>)"

definition getProfitAndLoss ::
  "host \<Rightarrow> database option \<Rightarrow> isodate option \<Rightarrow> isodate option \<Rightarrow> pnlReport response" where
  "getProfitAndLoss h store fromQ toQ =
     (case store of
        None \<Rightarrow> Status500 ''Failed to generate P&L report''
      | Some db \<Rightarrow> Json (pnlBody h db fromQ toQ))"


section \<open>Cash-flow forecast: \<^verbatim>\<open>GET /api/reports/cashflow\<close>\<close>

record flowDetails =
  d_routeIncome :: rat
  d_expectedPayments :: rat
  d_vehicleInstallments :: rat
  d_vehicleInsurance :: rat
  d_vehicleParking :: rat
  d_employeeCosts :: rat
  d_subcontractorCosts :: rat
  d_recurringExpenses :: rat

record monthRow =
  m_month :: monthKey
  inflows :: rat
  outflows :: rat
  netFlow :: rat
  cumulativeBalance :: rat
  details :: flowDetails

record flowSummary =
  totalInflows :: rat
  totalOutflows :: rat
  netCashFlow :: rat
  endingBalance :: rat

record cashflowForecast =
  months :: "monthRow list"
  summary :: flowSummary

definition periodMonthsOf :: "int option \<Rightarrow> int" where
  \<comment> \<open>\<^verbatim>\<open>parseInt(req.query.period) || 6\<close>: \<open>None\<close> is the \<^verbatim>\<open>NaN\<close> of an absent or
      non-numeric parameter; \<^verbatim>\<open>NaN\<close> and \<^verbatim>\<open>0\<close> are falsy\<close>
  "periodMonthsOf q = (case q of None \<Rightarrow> 6 | Some n \<Rightarrow> if n = 0 then 6 else n)"

definition inWindow :: "jsDate \<Rightarrow> jsDate \<Rightarrow> jsDate \<Rightarrow> bool" where
  \<comment> \<open>\<^verbatim>\<open>date >= start && date <= end\<close>\<close>
  "inWindow date start end = (jsDate_le start date \<and> jsDate_le date end)"

definition flowRouteIncome :: "route list \<Rightarrow> rat" where
  "flowRouteIncome rs =
     reduceSum (\<lambda>r. parseFloat (r_monthlyRate r)) (filter (\<lambda>r. r_status r = ''active'') rs)"

definition flowInstallments :: "jsDate \<Rightarrow> vehicleInstallment list \<Rightarrow> rat" where
  "flowInstallments date insts =
     reduceSum (\<lambda>inst. parseFloat (vi_monthlyAmount inst))
       (filter (\<lambda>inst. inWindow date (parseDate (vi_startDate inst)) (parseDate (vi_endDate inst)))
          insts)"

definition insuranceShare :: "host \<Rightarrow> vehicleInsurance \<Rightarrow> rat" where
  \<comment> \<open>\<^verbatim>\<open>parseFloat(ins.premium) / months\<close>, the months counted from the record's own dates\<close>
  "insuranceShare h ins =
     jsDiv (parseFloat (vs_premium ins))
           (of_int (monthsBetween h (parseDate (vs_startDate ins)) (parseDate (vs_endDate ins))))"

definition flowInsurance :: "host \<Rightarrow> jsDate \<Rightarrow> vehicleInsurance list \<Rightarrow> rat" where
  "flowInsurance h date inss =
     reduceSum (insuranceShare h)
       (filter (\<lambda>ins. inWindow date (parseDate (vs_startDate ins)) (parseDate (vs_endDate ins)))
          inss)"

definition parkingEnd :: "host \<Rightarrow> vehicleParking \<Rightarrow> jsDate" where
  \<comment> \<open>\<^verbatim>\<open>p.endDate ? new Date(p.endDate) : new Date(9999, 11, 31)\<close>\<close>
  "parkingEnd h p = (case vp_endDate p of Some e \<Rightarrow> parseDate e | None \<Rightarrow> newDate h 9999 11 31)"

definition flowParking :: "host \<Rightarrow> jsDate \<Rightarrow> vehicleParking list \<Rightarrow> rat" where
  "flowParking h date ps =
     reduceSum (\<lambda>p. parseFloat (vp_monthlyCost p))
       (filter (\<lambda>p. inWindow date (parseDate (vp_startDate p)) (parkingEnd h p)) ps)"

definition flowSubcontractorCosts :: "route list \<Rightarrow> rat" where
  "flowSubcontractorCosts rs = reduceSum (\<lambda>c. c) (activeSubcontractorCosts rs)"

definition flowRecurringExpenses :: "expense list \<Rightarrow> rat" where
  "flowRecurringExpenses es =
     reduceSum expenseAmount
       (filter (\<lambda>e. x_isRecurring e \<and> x_recurringFrequency e = Some ''monthly'') es)"

definition forecastDate :: "host \<Rightarrow> int \<Rightarrow> jsDate" where
  \<comment> \<open>\<^verbatim>\<open>const date = new Date(now.getFullYear(), now.getMonth() + i, 1)\<close>\<close>
  "forecastDate h i = newDate h (getFullYear h (now h)) (getMonth h (now h) + i) 1"

definition forecastMonth :: "host \<Rightarrow> database \<Rightarrow> int \<Rightarrow> rat \<Rightarrow> monthRow" where
  \<comment> \<open>the body of the loop for month index \<open>i\<close>, entered with the running balance \<open>balance\<close>\<close>
  "forecastMonth h db i balance =
     (let date = forecastDate h i;
          routeIncome = flowRouteIncome (routes db);
          vehicleInstallments = flowInstallments date (vehicleInstallments db);
          vehicleInsurance = flowInsurance h date (vehicleInsuranceRows db);
          vehicleParking = flowParking h date (vehicleParkingRows db);
          employeeCosts = monthlyEmployeeCosts (employees db);
          subcontractorCosts = flowSubcontractorCosts (routes db);
          recurringExpenses = flowRecurringExpenses (expenses db);
          totalInflows = routeIncome;
          totalOutflows =
            jsAdd (jsAdd (jsAdd (jsAdd (jsAdd vehicleInstallments vehicleInsurance) vehicleParking)
                                employeeCosts) subcontractorCosts) recurringExpenses;
          netFlow = jsSub totalInflows totalOutflows
      in \<lparr>m_month = monthKeyOf h date,
          inflows = totalInflows,
          outflows = totalOutflows,
          netFlow = netFlow,
          cumulativeBalance = jsAdd balance netFlow,
          details = \<lparr>d_routeIncome = routeIncome,
                     d_expectedPayments = 0,
                     d_vehicleInstallments = vehicleInstallments,
                     d_vehicleInsurance = vehicleInsurance,
                     d_vehicleParking = vehicleParking,
                     d_employeeCosts = employeeCosts,
                     d_subcontractorCosts = subcontractorCosts,
                     d_recurringExpenses = recurringExpenses\<rparr>\<rparr>)"

function forecastLoop ::
  "host \<Rightarrow> database \<Rightarrow> int \<Rightarrow> int \<Rightarrow> rat \<Rightarrow> monthRow list \<Rightarrow> rat \<times> monthRow list" where
  "forecastLoop h db periodMonths i balance rows =
     (if i < periodMonths
      then let row = forecastMonth h db i balance
           in forecastLoop h db periodMonths (i + 1) (cumulativeBalance row) (rows @ [row])
      else (balance, rows))"
  by pat_completeness auto
termination
  by (relation "measure (\<lambda>(h, db, periodMonths, i, balance, rows). nat (periodMonths - i))") auto

declare forecastLoop.simps [simp del]

definition cashflowBody :: "host \<Rightarrow> database \<Rightarrow> int option \<Rightarrow> cashflowForecast" where
  "cashflowBody h db q =
     (let (balance, rows) = forecastLoop h db (periodMonthsOf q) 0 0 [];
          totalInflows = reduceSum inflows rows;
          totalOutflows = reduceSum outflows rows
      in \<lparr>months = rows,
          summary = \<lparr>totalInflows = totalInflows,
                     totalOutflows = totalOutflows,
                     netCashFlow = jsSub totalInflows totalOutflows,
                     endingBalance = balance\<rparr>\<rparr>)"

definition getCashFlowForecast ::
  "host \<Rightarrow> database option \<Rightarrow> int option \<Rightarrow> cashflowForecast response" where
  "getCashFlowForecast h store q =
     (case store of
        None \<Rightarrow> Status500 ''Failed to generate cash flow forecast''
      | Some db \<Rightarrow> Json (cashflowBody h db q))"


section \<open>The rows the loop appends\<close>

text \<open>
  Two functions that are not in the source describe what the loop of the cash-flow
  handler returns: the rows of \<open>k\<close> consecutive months from index \<open>i\<close>, and the running
  balance after them.
\<close>

fun forecastRows :: "host \<Rightarrow> database \<Rightarrow> int \<Rightarrow> nat \<Rightarrow> rat \<Rightarrow> monthRow list" where
  "forecastRows h db i 0 balance = []"
| "forecastRows h db i (Suc k) balance =
     forecastMonth h db i balance #
     forecastRows h db (i + 1) k (cumulativeBalance (forecastMonth h db i balance))"

definition balanceAfter :: "rat \<Rightarrow> monthRow list \<Rightarrow> rat" where
  "balanceAfter balance rows = (if rows = [] then balance else cumulativeBalance (last rows))"


section \<open>Test data\<close>

definition ymd :: "int \<Rightarrow> int \<Rightarrow> int \<Rightarrow> isodate" where
  "ymd y m d = \<lparr>year = y, month = m, day = d\<rparr>"

text \<open>
  Three hosts at the same instant, 15 January 2024 04:00 UTC: one whose zone is UTC, one
  at UTC+8 (Singapore, 12:00 local) and one at UTC-5 (New York, 23:00 of 14 January local).
\<close>

definition hostUTC :: host where
  "hostUTC = \<lparr>tz = 0, now = \<lparr>utcDate = ymd 2024 1 15, utcMinute = 240\<rparr>\<rparr>"

definition hostSingapore :: host where
  "hostSingapore = \<lparr>tz = 480, now = \<lparr>utcDate = ymd 2024 1 15, utcMinute = 240\<rparr>\<rparr>"

definition hostNewYork :: host where
  "hostNewYork = \<lparr>tz = - 300, now = \<lparr>utcDate = ymd 2024 1 15, utcMinute = 240\<rparr>\<rparr>"

definition hostUTCLater :: host where
  \<comment> \<open>the UTC host again, at 1 July 2025 00:00 UTC\<close>
  "hostUTCLater = \<lparr>tz = 0, now = \<lparr>utcDate = ymd 2025 7 1, utcMinute = 0\<rparr>\<rparr>"

definition emptyDatabase :: database where
  "emptyDatabase = \<lparr>customers = [], routes = [], incomeRecords = [], expenseCategories = [],
     expenses = [], vehicles = [], vehicleInstallments = [], vehicleInsuranceRows = [],
     vehicleParkingRows = [], employees = []\<rparr>"

definition ownedRoute :: route where
  "ownedRoute = \<lparr>r_id = 1, r_customerId = Some 1, r_monthlyRate = 10000, r_routeType = ''owned'',
     r_subcontractorCost = None, r_vehicleId = Some 1, r_status = ''active''\<rparr>"

definition subcontractedRoute :: route where
  "subcontractedRoute = \<lparr>r_id = 2, r_customerId = Some 1, r_monthlyRate = 4000,
     r_routeType = ''subcontracted'', r_subcontractorCost = Some 1500, r_vehicleId = None,
     r_status = ''active''\<rparr>"

definition localEmployee :: employee where
  "localEmployee = \<lparr>e_id = 1, e_workerType = ''local'', e_salary = 3000,
     e_foreignWorkerLevy = None, e_status = ''active''\<rparr>"

definition foreignEmployee :: employee where
  "foreignEmployee = \<lparr>e_id = 2, e_workerType = ''foreign'', e_salary = 2200,
     e_foreignWorkerLevy = Some 450, e_status = ''active''\<rparr>"

definition formerEmployee :: employee where
  "formerEmployee = \<lparr>e_id = 3, e_workerType = ''local'', e_salary = 2800,
     e_foreignWorkerLevy = None, e_status = ''inactive''\<rparr>"

definition scenarioDb :: database where
  \<comment> \<open>one active route at 10000, one active local employee at 3000, nothing else\<close>
  "scenarioDb = emptyDatabase\<lparr>routes := [ownedRoute], employees := [localEmployee]\<rparr>"

definition insurance2024 :: vehicleInsurance where
  "insurance2024 = \<lparr>vs_id = 1, vs_vehicleId = 1, vs_premium = 2400,
     vs_startDate = ymd 2024 1 1, vs_endDate = ymd 2024 12 31\<rparr>"

definition insuranceDb :: database where
  "insuranceDb = emptyDatabase\<lparr>vehicleInsuranceRows := [insurance2024]\<rparr>"

definition incomeAcme :: incomeRecord where
  "incomeAcme = \<lparr>i_id = 1, i_customerId = Some 1, i_routeId = Some 1, i_amount = 5000,
     i_billingPeriod = (2024, 1), i_incomeType = ''route'', i_paymentStatus = ''paid''\<rparr>"

definition incomeNoCustomer :: incomeRecord where
  "incomeNoCustomer = \<lparr>i_id = 2, i_customerId = None, i_routeId = None, i_amount = 100,
     i_billingPeriod = (2024, 2), i_incomeType = ''adhoc'', i_paymentStatus = ''pending''\<rparr>"

definition incomeUnknownCustomer :: incomeRecord where
  "incomeUnknownCustomer = \<lparr>i_id = 3, i_customerId = Some 99, i_routeId = None, i_amount = 40,
     i_billingPeriod = (2024, 2), i_incomeType = ''route'', i_paymentStatus = ''pending''\<rparr>"

definition fuelExpense :: expense where
  "fuelExpense = \<lparr>x_id = 1, x_categoryId = Some 1, x_vehicleId = Some 1, x_amount = 501 / 2,
     x_expenseDate = ymd 2024 1 10, x_isRecurring = True,
     x_recurringFrequency = Some ''monthly''\<rparr>"

definition looseExpense :: expense where
  "looseExpense = \<lparr>x_id = 2, x_categoryId = None, x_vehicleId = None, x_amount = 50,
     x_expenseDate = ymd 2024 2 3, x_isRecurring = False, x_recurringFrequency = None\<rparr>"

definition sampleDb :: database where
  "sampleDb =
     \<lparr>customers = [\<lparr>c_id = 1, c_name = ''Acme'', c_status = ''active''\<rparr>],
      routes = [ownedRoute, subcontractedRoute],
      incomeRecords = [incomeAcme, incomeNoCustomer, incomeUnknownCustomer],
      expenseCategories = [\<lparr>k_id = 1, k_name = ''Fuel'', k_parentId = None\<rparr>],
      expenses = [fuelExpense, looseExpense],
      vehicles = [\<lparr>v_id = 1, v_registrationNumber = ''SBS1234A'', v_status = ''maintenance''\<rparr>],
      vehicleInstallments = [\<lparr>vi_id = 1, vi_vehicleId = 1, vi_monthlyAmount = 800,
                               vi_startDate = ymd 2023 6 1, vi_endDate = ymd 2026 5 31\<rparr>],
      vehicleInsuranceRows = [insurance2024],
      vehicleParkingRows = [\<lparr>vp_id = 1, vp_vehicleId = 1, vp_monthlyCost = 120,
                              vp_startDate = ymd 2023 1 1, vp_endDate = None\<rparr>],
      employees = [localEmployee, foreignEmployee, formerEmployee]\<rparr>"


section \<open>The cash-flow loop\<close>

text \<open>The loop returns the rows of \<open>forecastRows\<close> and the balance after them.\<close>

lemma forecastLoop_rows:
  "forecastLoop h db n i balance rows =
     (balanceAfter balance (forecastRows h db i (nat (n - i)) balance),
      rows @ forecastRows h db i (nat (n - i)) balance)"
proof (induction h db n i balance rows rule: forecastLoop.induct)
  case (1 h db n i balance rows)
  show ?case
  proof (cases "i < n")
    case False
    then show ?thesis by (subst forecastLoop.simps) (simp add: balanceAfter_def)
  next
    case True
    then have k: "nat (n - i) = Suc (nat (n - (i + 1)))"
      by simp
    show ?thesis
      using True "1.IH"[OF True refl]
      by (subst forecastLoop.simps) (simp add: k Let_def balanceAfter_def)
  qed
qed

lemma forecastRows_length: "length (forecastRows h db i k bal) = k"
  by (induction k arbitrary: i bal) simp_all

lemma forecastMonth_netFlow:
  "netFlow (forecastMonth h db i bal) =
     jsSub (inflows (forecastMonth h db i bal)) (outflows (forecastMonth h db i bal))"
  by (simp add: forecastMonth_def Let_def)

lemma forecastMonth_balance:
  "cumulativeBalance (forecastMonth h db i bal) = jsAdd bal (netFlow (forecastMonth h db i bal))"
  by (simp add: forecastMonth_def Let_def)

lemma forecastMonth_insurance:
  "m_month (forecastMonth h db i bal) = monthKeyOf h (forecastDate h i) \<and>
   d_vehicleInsurance (details (forecastMonth h db i bal)) =
     flowInsurance h (forecastDate h i) (vehicleInsuranceRows db)"
  by (simp add: forecastMonth_def Let_def)

lemma forecastRows_netFlow:
  "j < k \<Longrightarrow> netFlow (forecastRows h db i k bal ! j) =
     jsSub (inflows (forecastRows h db i k bal ! j)) (outflows (forecastRows h db i k bal ! j))"
proof (induction k arbitrary: i bal j)
  case 0
  then show ?case by simp
next
  case (Suc k)
  show ?case
  proof (cases j)
    case 0
    then show ?thesis by (simp only: forecastRows.simps nth_Cons_0 forecastMonth_netFlow)
  next
    case (Suc j')
    with Suc.prems have "j' < k" by simp
    from Suc.IH[OF this] show ?thesis unfolding Suc forecastRows.simps nth_Cons_Suc .
  qed
qed

lemma forecastRows_balance:
  "j < k \<Longrightarrow> cumulativeBalance (forecastRows h db i k bal ! j) =
     foldl jsAdd bal (map netFlow (take (Suc j) (forecastRows h db i k bal)))"
proof (induction k arbitrary: i bal j)
  case 0
  then show ?case by simp
next
  case (Suc k)
  show ?case
  proof (cases j)
    case 0
    then show ?thesis
      by (simp only: forecastRows.simps nth_Cons_0 take_Suc_Cons take_0 list.map foldl.simps
            forecastMonth_balance)
  next
    case (Suc j')
    with Suc.prems have "j' < k" by simp
    from Suc.IH[OF this] show ?thesis
      unfolding Suc forecastRows.simps nth_Cons_Suc
      by (simp only: take_Suc_Cons list.map foldl.simps forecastMonth_balance)
  qed
qed

lemma cashflowBody_rows:
  "months (cashflowBody h db q) = forecastRows h db 0 (nat (periodMonthsOf q)) 0"
  by (simp add: cashflowBody_def forecastLoop_rows Let_def)

lemma cashflowBody_summary:
  "summary (cashflowBody h db q) =
     \<lparr>totalInflows = reduceSum inflows (months (cashflowBody h db q)),
      totalOutflows = reduceSum outflows (months (cashflowBody h db q)),
      netCashFlow = jsSub (reduceSum inflows (months (cashflowBody h db q)))
                          (reduceSum outflows (months (cashflowBody h db q))),
      endingBalance = balanceAfter 0 (months (cashflowBody h db q))\<rparr>"
  by (simp add: cashflowBody_def forecastLoop_rows Let_def)

lemma forecastMonth_reads:
  assumes "routes a = routes b" "employees a = employees b"
    "vehicleInstallments a = vehicleInstallments b"
    "vehicleInsuranceRows a = vehicleInsuranceRows b"
    "vehicleParkingRows a = vehicleParkingRows b" "expenses a = expenses b"
  shows "forecastMonth h a i bal = forecastMonth h b i bal"
  using assms by (simp add: forecastMonth_def)

lemma forecastRows_reads:
  assumes "\<And>i bal. forecastMonth h a i bal = forecastMonth h b i bal"
  shows "forecastRows h a i k bal = forecastRows h b i k bal"
  using assms by (induction k arbitrary: i bal) simp_all

lemma reduceSum_Nil: "reduceSum g [] = 0"
  by (simp add: reduceSum_def)

lemma roundDouble_0: "roundDouble 0 = 0"
  by (simp add: roundDouble_def)

text \<open>
  The rounding is that of binary64: \<^verbatim>\<open>0.1 + 0.2\<close> is one unit in the last place above
  \<^verbatim>\<open>0.3\<close>, and a sum of cents that are binary fractions is exact.
\<close>

lemma binary64_tenths:
  "jsAdd (roundDouble (1 / 10)) (roundDouble (2 / 10)) = roundDouble (3 / 10) + 1 / 2 ^ 54"
  by code_simp

lemma binary64_exact: "jsAdd (parseFloat (501 / 2)) (parseFloat 50) = 601 / 2"
  by code_simp

lemma cashflowBody_negative:
  "n < 0 \<Longrightarrow> cashflowBody h db (Some n) =
     \<lparr>months = [], summary = \<lparr>totalInflows = 0, totalOutflows = 0, netCashFlow = 0,
                               endingBalance = 0\<rparr>\<rparr>"
  by (simp add: cashflowBody_def forecastLoop_rows periodMonthsOf_def balanceAfter_def
        reduceSum_Nil jsSub_def roundDouble_0)


section \<open>Dates on a host at or east of UTC\<close>

text \<open>
  A date-only string is parsed as midnight UTC, and the getters read local time. On a host
  whose offset is not negative the local date of that instant is the date of the string;
  on a host in UTC local midnight is the same instant as well.
\<close>

lemma date_le_iff: "date_le a b \<longleftrightarrow> date_lt a b \<or> a = b"
  by (cases a, cases b) (auto simp add: date_le_def date_lt_def)

lemma shiftMinutes_east:
  "0 \<le> k \<Longrightarrow> k < 1440 \<Longrightarrow> shiftMinutes k (parseDate d) = \<lparr>utcDate = d, utcMinute = k\<rparr>"
  by (simp add: shiftMinutes_def parseDate_def)

lemma monthsBetween_east:
  "0 \<le> tz h \<Longrightarrow> tz h < 1440 \<Longrightarrow>
   monthsBetween h (parseDate s) (parseDate e) =
     (year e - year s) * 12 + (month e - month s) + 1"
  by (simp add: monthsBetween_def getFullYear_def getMonth_def shiftMinutes_east)

lemma monthsInPeriod_east:
  "0 \<le> tz h \<Longrightarrow> tz h < 1440 \<Longrightarrow>
   monthsInPeriod h from to = (year to - year from) * 12 + (month to - month from) + 1"
  by (simp add: monthsInPeriod_def monthsBetween_east)

lemma monthsInPeriod_same: "monthsInPeriod h d d = 1"
  by (simp add: monthsInPeriod_def monthsBetween_def)

lemma newDate_utc:
  "tz h = 0 \<Longrightarrow> newDate h y m d = parseDate (ymd (y + m div 12) (m mod 12 + 1) d)"
  by (simp add: newDate_def shiftMinutes_def parseDate_def ymd_def)

lemma inWindow_utc:
  "inWindow (parseDate d) (parseDate s) (parseDate e) \<longleftrightarrow> date_le s d \<and> date_le d e"
  by (auto simp add: inWindow_def jsDate_le_def parseDate_def date_le_iff)

lemma insurance_share_utc:
  assumes "tz h = 0"
  shows "flowInsurance h (newDate h y m 1) (inss @ [ins]) =
     (if date_le (vs_startDate ins) (ymd (y + m div 12) (m mod 12 + 1) 1) \<and>
         date_le (ymd (y + m div 12) (m mod 12 + 1) 1) (vs_endDate ins)
      then jsAdd (flowInsurance h (newDate h y m 1) inss)
             (jsDiv (parseFloat (vs_premium ins))
                (of_int ((year (vs_endDate ins) - year (vs_startDate ins)) * 12 +
                         (month (vs_endDate ins) - month (vs_startDate ins)) + 1)))
      else flowInsurance h (newDate h y m 1) inss)"
  using assms
  by (simp add: flowInsurance_def reduceSum_def newDate_utc inWindow_utc insuranceShare_def
        monthsBetween_east)


section \<open>Values of the test data\<close>

lemma scenario_routeIncome: "flowRouteIncome [ownedRoute] = 10000"
  by code_simp

lemma scenario_employeeCosts: "monthlyEmployeeCosts [localEmployee] = 3510"
  by code_simp

lemma scenario_subcontractorCosts: "flowSubcontractorCosts [ownedRoute] = 0"
  by code_simp

lemma scenario_outflows: "jsAdd (jsAdd (jsAdd (jsAdd (jsAdd 0 0) 0) 3510) 0) 0 = 3510"
  by code_simp

lemma scenario_netFlow: "jsSub 10000 3510 = 6490"
  by code_simp

lemma scenario_balances:
  "jsAdd 0 6490 = 6490" "jsAdd 6490 6490 = 12980" "jsAdd 12980 6490 = 19470"
  by code_simp+

lemma scenario_month:
  "inflows (forecastMonth h scenarioDb i bal) = 10000 \<and>
   outflows (forecastMonth h scenarioDb i bal) = 3510 \<and>
   netFlow (forecastMonth h scenarioDb i bal) = 6490 \<and>
   cumulativeBalance (forecastMonth h scenarioDb i bal) = jsAdd bal 6490"
  by (simp add: forecastMonth_def Let_def scenarioDb_def emptyDatabase_def
        flowInstallments_def flowInsurance_def flowParking_def flowRecurringExpenses_def
        reduceSum_Nil scenario_routeIncome scenario_employeeCosts scenario_subcontractorCosts
        scenario_outflows scenario_netFlow)

lemma scenario_rows:
  "map (\<lambda>m. (inflows m, outflows m, netFlow m, cumulativeBalance m))
       (months (cashflowBody h scenarioDb (Some 3))) =
     [(10000, 3510, 6490, 6490), (10000, 3510, 6490, 12980), (10000, 3510, 6490, 19470)]"
  by (simp add: cashflowBody_rows periodMonthsOf_def numeral_3_eq_3 scenario_month
        scenario_balances)

lemma scenario_ending:
  "endingBalance (summary (cashflowBody h scenarioDb (Some 3))) = 19470"
  by (simp add: cashflowBody_summary cashflowBody_rows balanceAfter_def periodMonthsOf_def
        numeral_3_eq_3 scenario_month scenario_balances)

lemma sample_income:
  "getIncomeByPeriod sampleDb (ymd 2024 1 1) (ymd 2024 12 31) =
     [incomeAcme, incomeNoCustomer, incomeUnknownCustomer]"
  by code_simp

lemma sample_byCustomer:
  "reduceSum n_amount
     (incomeByCustomer (customers sampleDb) [incomeAcme, incomeNoCustomer, incomeUnknownCustomer]) =
   5000"
  by code_simp

lemma sample_incomeOfType:
  "incomeOfType ''route'' [incomeAcme, incomeNoCustomer, incomeUnknownCustomer] = 5040"
  "incomeOfType ''adhoc'' [incomeAcme, incomeNoCustomer, incomeUnknownCustomer] = 100"
  "jsAdd 5040 100 = 5140"
  by code_simp+

lemma local_cpf: "cpfOf localEmployee = 510 + 1 / 2 ^ 44"
  by code_simp

lemma foreign_cost: "monthlyEmployeeCosts [foreignEmployee] = 2650"
  by code_simp

lemma reversed_months: "monthsInPeriod hostUTC (ymd 2024 3 1) (ymd 2024 1 1) = - 1"
  by code_simp

lemma reversed_employeeCosts: "pnlEmployeeCosts (- 1) [localEmployee] = - 3510"
  by code_simp

lemma reversed_order: "date_lt (ymd 2024 1 1) (ymd 2024 3 1)"
  by code_simp

lemma singapore_dates:
  "forecastDate hostSingapore 0 = \<lparr>utcDate = ymd 2023 12 31, utcMinute = 960\<rparr>"
  "forecastDate hostSingapore 1 = \<lparr>utcDate = ymd 2024 1 31, utcMinute = 960\<rparr>"
  by code_simp+

lemma singapore_keys:
  "monthKeyOf hostSingapore \<lparr>utcDate = ymd 2023 12 31, utcMinute = 960\<rparr> = (2024, 1)"
  "monthKeyOf hostSingapore \<lparr>utcDate = ymd 2024 1 31, utcMinute = 960\<rparr> = (2024, 2)"
  by code_simp+

lemma singapore_insurance:
  "flowInsurance hostSingapore \<lparr>utcDate = ymd 2023 12 31, utcMinute = 960\<rparr> [insurance2024] = 0"
  "flowInsurance hostSingapore \<lparr>utcDate = ymd 2024 1 31, utcMinute = 960\<rparr> [insurance2024] = 200"
  by code_simp+

lemma utc_insurance:
  "forecastDate hostUTC 0 = \<lparr>utcDate = ymd 2024 1 1, utcMinute = 0\<rparr>"
  "flowInsurance hostUTC \<lparr>utcDate = ymd 2024 1 1, utcMinute = 0\<rparr> [insurance2024] = 200"
  by code_simp+

lemma newYork_months:
  "monthsInPeriod hostNewYork (ymd 2024 1 1) (ymd 2024 12 31) = 13"
  "monthsInPeriod hostNewYork (ymd 2024 1 15) (ymd 2024 3 1) = 2"
  "monthsInPeriod hostUTC (ymd 2024 1 1) (ymd 2024 12 31) = 12"
  "pnlEmployeeCosts 13 [localEmployee] = 45630"
  "pnlEmployeeCosts 12 [localEmployee] = 42120"
  by code_simp+


section \<open>The claims\<close>

text \<open>
  Claim C1. Every P&L answer has net profit equal to total income minus total expenses,
  and total expenses equal to the sum of the amounts of the expense rows of the period,
  plus subcontractor costs, plus employee costs, plus vehicle costs, which are 0. The
  by-category list is not added to the total: the total does not depend on the categories.
\<close>

theorem pnl_totals:
  "getProfitAndLoss h (Some db) fromQ toQ = Json r \<Longrightarrow>
     pl_netProfit r = jsSub (totalIncome (pl_income r)) (totalExpenses (pl_expenses r)) \<and>
     totalExpenses (pl_expenses r) =
       jsAdd (jsAdd (jsAdd (reduceSum expenseAmount
                              (getExpensesByPeriod db (pnlFrom h fromQ) (pnlTo h toQ)))
                           (subcontractorCosts (pl_expenses r)))
                    (employeeCosts (pl_expenses r)))
             (vehicleCosts (pl_expenses r)) \<and>
     vehicleCosts (pl_expenses r) = 0 \<and>
     totalExpenses (pl_expenses (pnlBody h (db\<lparr>expenseCategories := cats\<rparr>) fromQ toQ)) =
       totalExpenses (pl_expenses r)"
  by (auto simp add: getProfitAndLoss_def pnlBody_def Let_def getExpensesByPeriod_def)

theorem pnl_totals_witness:
  "getProfitAndLoss hostUTC (Some sampleDb) (Some (ymd 2024 1 1)) (Some (ymd 2024 12 31)) =
     Json (pnlBody hostUTC sampleDb (Some (ymd 2024 1 1)) (Some (ymd 2024 12 31))) \<and>
   pl_netProfit (pnlBody hostUTC sampleDb (Some (ymd 2024 1 1)) (Some (ymd 2024 12 31))) =
     jsSub (totalIncome (pl_income
              (pnlBody hostUTC sampleDb (Some (ymd 2024 1 1)) (Some (ymd 2024 12 31)))))
           (totalExpenses (pl_expenses
              (pnlBody hostUTC sampleDb (Some (ymd 2024 1 1)) (Some (ymd 2024 12 31)))))"
  using pnl_totals[of hostUTC sampleDb "Some (ymd 2024 1 1)" "Some (ymd 2024 12 31)"
      "pnlBody hostUTC sampleDb (Some (ymd 2024 1 1)) (Some (ymd 2024 12 31))"]
  by (simp add: getProfitAndLoss_def)

text \<open>
  Claim C2. In the cash-flow forecast the list has one row per month index below
  \<open>periodMonths\<close>; in every row the net flow is inflows minus outflows and the cumulative
  balance is the sum, from 0 and in order, of the net flows up to that row; the summary's
  net cash flow is total inflows minus total outflows, and its ending balance is the
  cumulative balance of the last row. With one active route at 10000 and one active local
  employee at 3000 and nothing else, three months give inflows 10000, outflows 3510, net
  flow 6490 and balances 6490, 12980, 19470, on every host; the ending balance is 19470.
\<close>

theorem cashflow_balances:
  "length (months (cashflowBody h db q)) = nat (periodMonthsOf q) \<and>
   (\<forall>i < length (months (cashflowBody h db q)).
      netFlow (months (cashflowBody h db q) ! i) =
        jsSub (inflows (months (cashflowBody h db q) ! i))
              (outflows (months (cashflowBody h db q) ! i)) \<and>
      cumulativeBalance (months (cashflowBody h db q) ! i) =
        foldl jsAdd 0 (map netFlow (take (Suc i) (months (cashflowBody h db q))))) \<and>
   totalInflows (summary (cashflowBody h db q)) = reduceSum inflows (months (cashflowBody h db q)) \<and>
   totalOutflows (summary (cashflowBody h db q)) = reduceSum outflows (months (cashflowBody h db q)) \<and>
   netCashFlow (summary (cashflowBody h db q)) =
     jsSub (totalInflows (summary (cashflowBody h db q)))
           (totalOutflows (summary (cashflowBody h db q))) \<and>
   endingBalance (summary (cashflowBody h db q)) =
     (if months (cashflowBody h db q) = [] then 0
      else cumulativeBalance (last (months (cashflowBody h db q)))) \<and>
   map (\<lambda>m. (inflows m, outflows m, netFlow m, cumulativeBalance m))
       (months (cashflowBody h scenarioDb (Some 3))) =
     [(10000, 3510, 6490, 6490), (10000, 3510, 6490, 12980), (10000, 3510, 6490, 19470)] \<and>
   endingBalance (summary (cashflowBody h scenarioDb (Some 3))) = 19470"
proof -
  let ?rows = "months (cashflowBody h db q)"
  have len: "length ?rows = nat (periodMonthsOf q)"
    by (simp add: cashflowBody_rows forecastRows_length)
  have each: "\<forall>i < length ?rows.
      netFlow (?rows ! i) = jsSub (inflows (?rows ! i)) (outflows (?rows ! i)) \<and>
      cumulativeBalance (?rows ! i) = foldl jsAdd 0 (map netFlow (take (Suc i) ?rows))"
    unfolding len unfolding cashflowBody_rows
    using forecastRows_netFlow forecastRows_balance by blast
  have sums: "totalInflows (summary (cashflowBody h db q)) = reduceSum inflows ?rows"
    "totalOutflows (summary (cashflowBody h db q)) = reduceSum outflows ?rows"
    "netCashFlow (summary (cashflowBody h db q)) =
       jsSub (totalInflows (summary (cashflowBody h db q)))
             (totalOutflows (summary (cashflowBody h db q)))"
    "endingBalance (summary (cashflowBody h db q)) =
       (if ?rows = [] then 0 else cumulativeBalance (last ?rows))"
    by (simp_all add: cashflowBody_summary balanceAfter_def)
  from len each sums scenario_rows[of h] scenario_ending[of h] show ?thesis by blast
qed

theorem cashflow_balances_witness:
  "(2::nat) < length (months (cashflowBody hostSingapore sampleDb (Some 3))) \<and>
   cumulativeBalance (months (cashflowBody hostSingapore sampleDb (Some 3)) ! 2) =
     foldl jsAdd 0 (map netFlow (take 3 (months (cashflowBody hostSingapore sampleDb (Some 3)))))"
  using cashflow_balances[of hostSingapore sampleDb "Some 3"]
  by (simp add: periodMonthsOf_def)

text \<open>
  Claim C3. An insurance record adds its premium divided by the month count of its own
  term to the outflows of every forecast month inside its term, and nothing outside: a
  premium of 2400 from 2024-01-01 to 2024-12-31 adds 200 to each of the twelve months of
  2024. On a host at UTC+8 the code does not do so: for the forecast month January 2024
  the Date object of the month is 2023-12-31 16:00 UTC, which is before the start date
  parsed as 2024-01-01 00:00 UTC, and the record adds 0 to January; it adds 200 to
  February.
\<close>

theorem insurance_window_singapore:
  "forecastDate hostSingapore 0 = \<lparr>utcDate = ymd 2023 12 31, utcMinute = 960\<rparr> \<and>
   m_month (forecastMonth hostSingapore insuranceDb 0 0) = (2024, 1) \<and>
   d_vehicleInsurance (details (forecastMonth hostSingapore insuranceDb 0 0)) = 0 \<and>
   m_month (forecastMonth hostSingapore insuranceDb 1 0) = (2024, 2) \<and>
   d_vehicleInsurance (details (forecastMonth hostSingapore insuranceDb 1 0)) = 200 \<and>
   d_vehicleInsurance (details (forecastMonth hostUTC insuranceDb 0 0)) = 200"
  by (simp add: forecastMonth_insurance insuranceDb_def emptyDatabase_def singapore_dates
        singapore_keys singapore_insurance utc_insurance)

text \<open>
  Claim C4, as amended. For every employee the reducer adds the salary and then, for a
  local worker, the CPF \<open>salary * 0.17\<close>, for any other worker the levy, which is 0 when
  unset; the P&L reducer adds the same monthly cost times the month count. The
  arithmetic is binary64: the CPF of a salary of 3000 is \<open>510 + 2\<^sup>-\<^sup>4\<^sup>4\<close>, the Number
  that prints as 510.00000000000006, a local employee earning 3000 costs exactly 3510 a
  month, and a foreign employee earning 2200 with levy 450 costs exactly 2650.
\<close>

theorem employer_cost:
  "employeeCostStep acc e =
     (if e_workerType e = ''local''
      then jsAdd (jsAdd acc (parseFloat (e_salary e)))
                 (jsMul (parseFloat (e_salary e)) (roundDouble (17 / 100)))
      else jsAdd (jsAdd acc (parseFloat (e_salary e)))
                 (case e_foreignWorkerLevy e of None \<Rightarrow> 0 | Some l \<Rightarrow> parseFloat l)) \<and>
   pnlEmployeeCostStep n acc e =
     (if e_workerType e = ''local''
      then jsAdd acc (jsMul (jsAdd (parseFloat (e_salary e))
                                   (jsMul (parseFloat (e_salary e)) (roundDouble (17 / 100))))
                            (of_int n))
      else jsAdd acc (jsMul (jsAdd (parseFloat (e_salary e))
                                   (case e_foreignWorkerLevy e of None \<Rightarrow> 0
                                    | Some l \<Rightarrow> parseFloat l))
                            (of_int n))) \<and>
   cpfOf localEmployee = 510 + 1 / 2 ^ 44 \<and>
   monthlyEmployeeCosts [localEmployee] = 3510 \<and>
   monthlyEmployeeCosts [foreignEmployee] = 2650"
proof -
  have step: "employeeCostStep acc e =
     (if e_workerType e = ''local''
      then jsAdd (jsAdd acc (parseFloat (e_salary e)))
                 (jsMul (parseFloat (e_salary e)) (roundDouble (17 / 100)))
      else jsAdd (jsAdd acc (parseFloat (e_salary e)))
                 (case e_foreignWorkerLevy e of None \<Rightarrow> 0 | Some l \<Rightarrow> parseFloat l))"
    by (simp add: employeeCostStep_def cpfOf_def levyOf_def)
  have pstep: "pnlEmployeeCostStep n acc e =
     (if e_workerType e = ''local''
      then jsAdd acc (jsMul (jsAdd (parseFloat (e_salary e))
                                   (jsMul (parseFloat (e_salary e)) (roundDouble (17 / 100))))
                            (of_int n))
      else jsAdd acc (jsMul (jsAdd (parseFloat (e_salary e))
                                   (case e_foreignWorkerLevy e of None \<Rightarrow> 0
                                    | Some l \<Rightarrow> parseFloat l))
                            (of_int n)))"
    by (simp add: pnlEmployeeCostStep_def cpfOf_def levyOf_def)
  from step pstep local_cpf scenario_employeeCosts foreign_cost show ?thesis by (intro conjI)
qed

theorem employer_cost_witness:
  "employeeCostStep 0 foreignEmployee = jsAdd (jsAdd 0 (parseFloat 2200)) (parseFloat 450)"
  using employer_cost[of 0 foreignEmployee 1]
  by (simp add: foreignEmployee_def)

theorem cpf_3000_counterexample: "cpfOf localEmployee \<noteq> 510"
  by code_simp

text \<open>
  Claim C5. The month count of a range is
  \<open>(to.year - from.year) * 12 + (to.month - from.month) + 1\<close> in the year and month of the
  two date strings, so that 2024-01-01 to 2024-12-31 is 12 months and 2024-01-15 to
  2024-03-01 is 3; the count multiplies the subcontractor and employee costs of the P&L.
  On a host at UTC-5 the code does not compute it: there the two ranges count 13 and 2
  months, and the P&L of the first charges 13 months of payroll, 45630 instead of 42120.
\<close>

theorem monthsInPeriod_newYork:
  "monthsInPeriod hostNewYork (ymd 2024 1 1) (ymd 2024 12 31) = 13 \<and>
   monthsInPeriod hostNewYork (ymd 2024 1 15) (ymd 2024 3 1) = 2 \<and>
   employeeCosts (pl_expenses
     (pnlBody hostNewYork scenarioDb (Some (ymd 2024 1 1)) (Some (ymd 2024 12 31)))) = 45630 \<and>
   monthsInPeriod hostUTC (ymd 2024 1 1) (ymd 2024 12 31) = 12 \<and>
   employeeCosts (pl_expenses
     (pnlBody hostUTC scenarioDb (Some (ymd 2024 1 1)) (Some (ymd 2024 12 31)))) = 42120"
  by (simp add: newYork_months pnlBody_def Let_def pnlFrom_def pnlTo_def scenarioDb_def
        emptyDatabase_def)

text \<open>
  Claim C6, as amended. Neither operation checks its range. Whenever the store can be
  read, a P&L request is answered with a report whose subcontractor and employee costs
  are the monthly costs times the month count of the formula, whatever its sign, and a
  forecast request is answered with one row per month index below the period: six rows
  when the parameter is absent, not a number or 0, and no row and a summary of zeros when
  it is negative.
\<close>

theorem range_not_validated:
  "getProfitAndLoss h (Some db) fromQ toQ = Json (pnlBody h db fromQ toQ) \<and>
   subcontractorCosts (pl_expenses (pnlBody h db fromQ toQ)) =
     pnlSubcontractorCosts (monthsInPeriod h (pnlFrom h fromQ) (pnlTo h toQ)) (routes db) \<and>
   employeeCosts (pl_expenses (pnlBody h db fromQ toQ)) =
     pnlEmployeeCosts (monthsInPeriod h (pnlFrom h fromQ) (pnlTo h toQ)) (employees db) \<and>
   getCashFlowForecast h (Some db) q = Json (cashflowBody h db q) \<and>
   length (months (cashflowBody h db q)) = nat (periodMonthsOf q) \<and>
   periodMonthsOf None = 6 \<and> periodMonthsOf (Some 0) = 6 \<and>
   (n < 0 \<longrightarrow> cashflowBody h db (Some n) =
      \<lparr>months = [], summary = \<lparr>totalInflows = 0, totalOutflows = 0, netCashFlow = 0,
                                endingBalance = 0\<rparr>\<rparr>)"
  by (simp add: getProfitAndLoss_def getCashFlowForecast_def pnlBody_def Let_def
        cashflowBody_rows forecastRows_length cashflowBody_negative periodMonthsOf_def)

theorem range_not_validated_witness:
  "(- 3 :: int) < 0 \<and>
   cashflowBody hostUTC scenarioDb (Some (- 3)) =
      \<lparr>months = [], summary = \<lparr>totalInflows = 0, totalOutflows = 0, netCashFlow = 0,
                                endingBalance = 0\<rparr>\<rparr>"
  using range_not_validated[of hostUTC scenarioDb None None "Some (- 3)" "- 3"]
  by simp

theorem invalid_range_counterexample:
  "date_lt (ymd 2024 1 1) (ymd 2024 3 1) \<and>
   getProfitAndLoss hostUTC (Some scenarioDb) (Some (ymd 2024 3 1)) (Some (ymd 2024 1 1)) =
     Json (pnlBody hostUTC scenarioDb (Some (ymd 2024 3 1)) (Some (ymd 2024 1 1))) \<and>
   employeeCosts (pl_expenses
     (pnlBody hostUTC scenarioDb (Some (ymd 2024 3 1)) (Some (ymd 2024 1 1)))) = - 3510 \<and>
   getCashFlowForecast hostUTC (Some scenarioDb) (Some (- 3)) =
     Json \<lparr>months = [], summary = \<lparr>totalInflows = 0, totalOutflows = 0, netCashFlow = 0,
                                    endingBalance = 0\<rparr>\<rparr>"
  by (simp add: reversed_order getProfitAndLoss_def getCashFlowForecast_def cashflowBody_negative
        pnlBody_def Let_def pnlFrom_def pnlTo_def reversed_months scenarioDb_def
        emptyDatabase_def reversed_employeeCosts)

text \<open>
  Claim C7. In the dashboard statistics the month's total expenses are the sum of the
  amounts of the expense rows dated in the current month plus the monthly cost of the
  active employees, and the year-to-date total expenses are the sum of the amounts of the
  expense rows dated on or after 1 January of the current year, with no employee cost: it
  is the same for every employee table. The month's net profit is income minus expenses
  minus employee costs, the year-to-date net profit is income minus expenses.
\<close>

theorem dashboard_totals:
  "getDashboardStats h (Some db) = Json s \<Longrightarrow>
     totalExpensesMonth s =
       jsAdd (reduceSum expenseAmount
                (filter (\<lambda>e. substring7 (x_expenseDate e) = monthKeyOf h (now h)) (expenses db)))
             (monthlyEmployeeCosts (employees db)) \<and>
     totalExpensesYTD s =
       reduceSum expenseAmount
         (filter (\<lambda>e. date_le (ymd (getFullYear h (now h)) 1 1) (x_expenseDate e)) (expenses db)) \<and>
     netProfitMonth s =
       jsSub (jsSub (totalIncomeMonth s)
                    (reduceSum expenseAmount
                       (filter (\<lambda>e. substring7 (x_expenseDate e) = monthKeyOf h (now h))
                          (expenses db))))
             (monthlyEmployeeCosts (employees db)) \<and>
     netProfitYTD s = jsSub (totalIncomeYTD s) (totalExpensesYTD s) \<and>
     totalExpensesYTD (dashboardBody h (db\<lparr>employees := es\<rparr>)) = totalExpensesYTD s"
  by (auto simp add: getDashboardStats_def dashboardBody_def Let_def monthlyExpensesOf_def
        ytdExpensesOf_def startsWith_def ymd_def)

theorem dashboard_totals_witness:
  "getDashboardStats hostSingapore (Some sampleDb) = Json (dashboardBody hostSingapore sampleDb) \<and>
   netProfitYTD (dashboardBody hostSingapore sampleDb) =
     jsSub (totalIncomeYTD (dashboardBody hostSingapore sampleDb))
           (totalExpensesYTD (dashboardBody hostSingapore sampleDb)) \<and>
   totalExpensesYTD (dashboardBody hostSingapore (sampleDb\<lparr>employees := []\<rparr>)) =
     totalExpensesYTD (dashboardBody hostSingapore sampleDb)"
  using dashboard_totals[of hostSingapore sampleDb "dashboardBody hostSingapore sampleDb" "[]"]
  by (simp add: getDashboardStats_def)

text \<open>
  Claim C8. The P&L answer is a function of the rows read and of the two arguments: two
  requests with the same from and to, on hosts in the same zone and on databases with the
  same customers, routes, employees, categories, income rows and expense rows, get the
  same answer, whatever the time of each request.
\<close>

theorem pnl_pure:
  assumes "customers a = customers b" and "routes a = routes b"
    and "employees a = employees b" and "expenseCategories a = expenseCategories b"
    and "incomeRecords a = incomeRecords b" and "expenses a = expenses b"
    and "tz h = tz h'"
  shows "getProfitAndLoss h (Some a) (Some from) (Some to) =
         getProfitAndLoss h' (Some b) (Some from) (Some to)"
  using assms
  by (simp add: getProfitAndLoss_def pnlBody_def pnlFrom_def pnlTo_def monthsInPeriod_def
        monthsBetween_def getFullYear_def getMonth_def getIncomeByPeriod_def
        getExpensesByPeriod_def)

theorem pnl_pure_witness:
  "tz hostUTC = tz hostUTCLater \<and>
   getProfitAndLoss hostUTC (Some sampleDb) (Some (ymd 2024 1 1)) (Some (ymd 2024 12 31)) =
   getProfitAndLoss hostUTCLater (Some (sampleDb\<lparr>vehicles := []\<rparr>))
     (Some (ymd 2024 1 1)) (Some (ymd 2024 12 31))"
  using pnl_pure[of sampleDb "sampleDb\<lparr>vehicles := []\<rparr>" hostUTC hostUTCLater
      "ymd 2024 1 1" "ymd 2024 12 31"]
  by (simp add: hostUTC_def hostUTCLater_def)

text \<open>
  Claim C9. An income row of the period whose customer is null or is the id of no customer
  is an addend of the income of its type, and so of the total income, and is in no
  by-customer bucket: the by-customer list is the same with and without the row, and
  every name in it is the name of a customer. The by-customer amounts of the sample
  database add up to less than its total income.
\<close>

theorem income_without_customer:
  assumes "\<forall>c \<in> set cs. i_customerId i \<noteq> Some (c_id c)"
  shows "incomeByCustomer cs (xs @ i # ys) = incomeByCustomer cs (xs @ ys) \<and>
         incomeOfType (i_incomeType i) (xs @ i # ys) =
           foldl (\<lambda>acc x. jsAdd acc (incomeAmount x))
             (jsAdd (incomeOfType (i_incomeType i) xs) (incomeAmount i))
             (filter (\<lambda>x. i_incomeType x = i_incomeType i) ys) \<and>
         set (map n_name (incomeByCustomer cs (xs @ i # ys))) \<subseteq> set (map c_name cs) \<and>
         reduceSum n_amount
           (byCustomer (pl_income
              (pnlBody hostUTC sampleDb (Some (ymd 2024 1 1)) (Some (ymd 2024 12 31)))))
           < totalIncome (pl_income
              (pnlBody hostUTC sampleDb (Some (ymd 2024 1 1)) (Some (ymd 2024 12 31))))"
proof -
  have same: "filter (\<lambda>x. i_customerId x = Some (c_id c)) (xs @ i # ys) =
              filter (\<lambda>x. i_customerId x = Some (c_id c)) (xs @ ys)" if "c \<in> set cs" for c
    using assms that by simp
  have buckets: "incomeByCustomer cs (xs @ i # ys) = incomeByCustomer cs (xs @ ys)"
    unfolding incomeByCustomer_def using same by (simp cong: map_cong)
  have counted: "incomeOfType (i_incomeType i) (xs @ i # ys) =
           foldl (\<lambda>acc x. jsAdd acc (incomeAmount x))
             (jsAdd (incomeOfType (i_incomeType i) xs) (incomeAmount i))
             (filter (\<lambda>x. i_incomeType x = i_incomeType i) ys)"
    by (simp add: incomeOfType_def reduceSum_def)
  have names: "set (map n_name (incomeByCustomer cs (xs @ i # ys))) \<subseteq> set (map c_name cs)"
    by (auto simp add: incomeByCustomer_def)
  have less: "reduceSum n_amount
           (byCustomer (pl_income
              (pnlBody hostUTC sampleDb (Some (ymd 2024 1 1)) (Some (ymd 2024 12 31)))))
           < totalIncome (pl_income
              (pnlBody hostUTC sampleDb (Some (ymd 2024 1 1)) (Some (ymd 2024 12 31))))"
    by (simp add: pnlBody_def pnlFrom_def pnlTo_def Let_def sample_income sample_byCustomer
          sample_incomeOfType)
  from buckets counted names less show ?thesis by blast
qed

theorem income_without_customer_witness:
  "incomeByCustomer (customers sampleDb) [incomeAcme, incomeNoCustomer, incomeUnknownCustomer] =
     incomeByCustomer (customers sampleDb) [incomeAcme, incomeUnknownCustomer] \<and>
   incomeOfType ''adhoc'' [incomeAcme, incomeNoCustomer, incomeUnknownCustomer] =
     jsAdd (incomeOfType ''adhoc'' [incomeAcme]) (incomeAmount incomeNoCustomer)"
  using income_without_customer[of "customers sampleDb" incomeNoCustomer "[incomeAcme]"
      "[incomeUnknownCustomer]"]
  by (simp add: sampleDb_def incomeNoCustomer_def incomeUnknownCustomer_def)

text \<open>
  Claim C10. The cash-flow forecast does not read the vehicles table: two databases that
  agree on routes, employees, installments, insurance, parking and expenses give the same
  answer, whatever their vehicle rows and the status of each vehicle.
\<close>

theorem cashflow_ignores_vehicles:
  assumes "routes a = routes b" and "employees a = employees b"
    and "vehicleInstallments a = vehicleInstallments b"
    and "vehicleInsuranceRows a = vehicleInsuranceRows b"
    and "vehicleParkingRows a = vehicleParkingRows b" and "expenses a = expenses b"
  shows "getCashFlowForecast h (Some a) q = getCashFlowForecast h (Some b) q"
proof -
  have "forecastRows h a 0 k 0 = forecastRows h b 0 k 0" for k
    by (rule forecastRows_reads) (rule forecastMonth_reads[OF assms])
  then have "cashflowBody h a q = cashflowBody h b q"
    by (simp add: cashflowBody_def forecastLoop_rows)
  then show ?thesis by (simp add: getCashFlowForecast_def)
qed

theorem cashflow_ignores_vehicles_witness:
  "getCashFlowForecast hostUTC
     (Some (sampleDb\<lparr>vehicles := [\<lparr>v_id = 1, v_registrationNumber = ''SBS1234A'',
                                    v_status = ''active''\<rparr>]\<rparr>)) (Some 12) =
   getCashFlowForecast hostUTC (Some sampleDb) (Some 12)"
  using cashflow_ignores_vehicles[of
     "sampleDb\<lparr>vehicles := [\<lparr>v_id = 1, v_registrationNumber = ''SBS1234A'',
                             v_status = ''active''\<rparr>]\<rparr>" sampleDb hostUTC "Some 12"]
  by simp

end
